theory Spec2Isabelle
  imports Main "HOL-Library.Sublist" "HOL-Library.AList"
begin

section \<open>JavaScript strings and numbers\<close>

text \<open>
  A JavaScript string is a sequence of code units. The model uses \<^typ>\<open>string\<close>, whose
  characters are the code units U+0000 to U+00FF; text outside that range is not
  represented. A JavaScript number is an integer or NaN: every number the modelled
  functions compute is built from \<open>parseInt\<close>, \<open>+\<close> and \<open>*\<close>. Integers are unbounded here,
  so the rounding of doubles beyond \<open>2 ^ 53\<close> is not represented.
\<close>

datatype jsnum = NaN | Num int



text \<open>Truthiness of a number: neither \<open>0\<close> nor NaN.\<close>

fun jsnum_truthy :: "jsnum \<Rightarrow> bool" where
  "jsnum_truthy NaN = False"
| "jsnum_truthy (Num n) = (n \<noteq> 0)"

text \<open>
  The white space and line terminator code units below U+0100: TAB, LF, VT, FF, CR,
  SPACE and NBSP. Both \<open>String.prototype.trim\<close> and the regular expression class
  \<open>\s\<close> use this set.
\<close>

definition is_space_char :: "char \<Rightarrow> bool" where
  "is_space_char c =
     (let n = (of_char c :: nat) in (9 \<le> n \<and> n \<le> 13) \<or> n = 32 \<or> n = 160)"

text \<open>The regular expression class \<open>\w\<close>, which is \<open>[A-Za-z0-9_]\<close>.\<close>

definition is_word_char :: "char \<Rightarrow> bool" where
  "is_word_char c =
     (let n = (of_char c :: nat) in
        (48 \<le> n \<and> n \<le> 57) \<or> (65 \<le> n \<and> n \<le> 90) \<or> n = 95 \<or> (97 \<le> n \<and> n \<le> 122))"

text \<open>
  \<open>toLowerCase\<close> on code units below U+0100: \<open>A\<close> to \<open>Z\<close> and the Latin-1 capitals
  U+00C0 to U+00DE (the multiplication sign U+00D7 apart) move up by 32.
\<close>

definition toLowerCase_char :: "char \<Rightarrow> char" where
  "toLowerCase_char c =
     (let n = (of_char c :: nat) in
        if (65 \<le> n \<and> n \<le> 90) \<or> (192 \<le> n \<and> n \<le> 222 \<and> n \<noteq> 215)
        then char_of (n + 32) else c)"

definition toLowerCase :: "string \<Rightarrow> string" where
  "toLowerCase s = map toLowerCase_char s"

definition trim :: "string \<Rightarrow> string" where
  "trim s = rev (dropWhile is_space_char (rev (dropWhile is_space_char s)))"


text \<open>
  \<open>s.replace(/pat/g, rep)\<close> for a pattern without metacharacters: the matches are found
  from left to right, do not overlap, and the replacement text is not scanned again.
\<close>

fun replaceAll :: "string \<Rightarrow> string \<Rightarrow> string \<Rightarrow> string" where
  "replaceAll pat rep [] = []"
| "replaceAll pat rep (c # cs) =
     (if pat \<noteq> [] \<and> prefix pat (c # cs)
      then rep @ replaceAll pat rep (drop (length pat - 1) cs)
      else c # replaceAll pat rep cs)"

text \<open>
  \<open>parseInt(s)\<close> with no radix argument: leading white space is skipped, then an optional
  sign, then an optional \<open>0x\<close> or \<open>0X\<close> (which selects radix 16), then the longest run
  of digits of the radix; the rest is ignored, and no digit at all gives NaN.
\<close>

definition digit_value :: "char \<Rightarrow> nat" where
  "digit_value c =
     (let n = (of_char c :: nat) in
        if 48 \<le> n \<and> n \<le> 57 then n - 48
        else if 97 \<le> n \<and> n \<le> 122 then n - 87
        else if 65 \<le> n \<and> n \<le> 90 then n - 55
        else 36)"

definition is_digit_of :: "nat \<Rightarrow> char \<Rightarrow> bool" where
  "is_digit_of radix c = (digit_value c < radix)"

definition digits_value :: "nat \<Rightarrow> string \<Rightarrow> int" where
  "digits_value radix ds = foldl (\<lambda>acc d. acc * int radix + int (digit_value d)) 0 ds"

definition parseInt :: "string \<Rightarrow> jsnum" where
  "parseInt s =
     (let s1 = dropWhile is_space_char s;
          neg = (case s1 of [] \<Rightarrow> False | c # _ \<Rightarrow> c = CHR ''-'');
          s2 = (case s1 of [] \<Rightarrow> [] | c # r \<Rightarrow> if c = CHR ''-'' \<or> c = CHR ''+'' then r else s1);
          hex = (prefix ''0x'' s2 \<or> prefix ''0X'' s2);
          radix = (if hex then 16 else 10);
          s3 = (if hex then drop 2 s2 else s2);
          ds = takeWhile (is_digit_of radix) s3
      in if ds = [] then NaN
         else Num ((if neg then - 1 else 1) * digits_value radix ds))"

section \<open>Errors and objects\<close>

text \<open>
  A thrown \<open>Error\<close> carries its message; a \<open>TypeError\<close> is what the runtime raises when
  a property of \<open>undefined\<close> is read or a value that is not a function is called.
\<close>

datatype js_error = Error string | TypeError

text \<open>
  An object built by assignments \<open>obj[key] = value\<close> is a list of properties in the order
  of their creation: assigning to a key the object already has replaces the value where
  it stands. Property names are the field labels of the input; the special treatment that
  JavaScript gives to the name \<open>__proto__\<close> and the enumeration order of array indices are
  not represented.
\<close>

type_synonym 'v js_object = "(string \<times> 'v) list"

definition obj_set :: "string \<Rightarrow> 'v \<Rightarrow> 'v js_object \<Rightarrow> 'v js_object" where
  "obj_set key v obj = AList.update key v obj"

definition obj_get :: "'v js_object \<Rightarrow> string \<Rightarrow> 'v option" where
  "obj_get obj key = map_of obj key"

section \<open>Tab-delimited playlists: applePlaylistParser.js\<close>







section \<open>Entity unescaping: appleXmlParser.js, cleanString\<close>

definition cleanString :: "string \<Rightarrow> string" where
  "cleanString str =
     replaceAll ''&gt;'' ''>''
       (replaceAll ''&lt;'' ''<''
         (replaceAll ''&quot;'' [CHR 0x22]
           (replaceAll ''&#39;'' [CHR 0x27]
             (replaceAll ''&#38;'' ''&'' str))))"

section \<open>String normalisation of the scorer: spotifyClient.js, normalizeString\<close>

text \<open>\<open>s.replace(/[^\w\s]/g, '')\<close>: every character outside both classes is deleted.\<close>

fun strip_non_word_space :: "string \<Rightarrow> string" where
  "strip_non_word_space [] = []"
| "strip_non_word_space (c # cs) =
     (if \<not> (is_word_char c \<or> is_space_char c) then strip_non_word_space cs
      else c # strip_non_word_space cs)"

definition normalizeString :: "string \<Rightarrow> string" where
  "normalizeString str = trim (strip_non_word_space (toLowerCase str))"

section \<open>Best-match selection: spotifyClient.js, findBestMatch\<close>

text \<open>
  The track that is searched for. The scorer reads its \<open>name\<close>, \<open>artist\<close>, \<open>album\<close> and
  \<open>duration\<close>; the first three are strings, the duration is a number of seconds.
\<close>

record canonical_track =
  name :: string
  artist :: string
  album :: string
  year :: string
  duration :: jsnum

text \<open>
  A candidate of the remote catalogue. A property that the object lacks is \<open>None\<close>;
  \<open>duration_ms\<close> is \<open>0\<close> when the object has none, which the scorer cannot tell from a
  duration of zero.
\<close>

datatype artist_object = Artist (artist_name: "string option")

datatype album_object = Album (album_name: "string option")

record candidate =
  track_name :: "string option"
  track_artists :: "artist_object list"
  track_album :: "album_object option"
  duration_ms :: int
  uri :: string

text \<open>\<open>a.includes(b)\<close> on strings.\<close>

definition includes_str :: "string \<Rightarrow> string \<Rightarrow> bool" where
  "includes_str a b = sublist b a"

text \<open>The tiers of a comparison: the points for equality, those for containment, or none.\<close>

definition tier :: "nat \<Rightarrow> nat \<Rightarrow> string \<Rightarrow> string \<Rightarrow> nat" where
  "tier exact partial candNorm origNorm =
     (if candNorm = origNorm then exact
      else if includes_str candNorm origNorm \<or> includes_str origNorm candNorm then partial
      else 0)"

text \<open>
  The points for the duration. \<open>Math.abs(duration - duration_ms / 1000)\<close> is compared with
  2 and 5; the model multiplies both sides by 1000, which keeps the comparison among
  integers.
\<close>

definition duration_points :: "jsnum \<Rightarrow> int \<Rightarrow> nat" where
  "duration_points d ms =
     (case d of
        NaN \<Rightarrow> 0
      | Num secs \<Rightarrow>
          if secs \<noteq> 0 \<and> ms \<noteq> 0 then
            (let durationDiff = \<bar>1000 * secs - ms\<bar>
             in if durationDiff \<le> 2000 then 2 else if durationDiff \<le> 5000 then 1 else 0)
          else 0)"

text \<open>
  The body of the loop up to the comparison with the running maximum: the score of one
  candidate, or the \<open>TypeError\<close> of reading \<open>toLowerCase\<close> or \<open>name\<close> from \<open>undefined\<close>.
\<close>

definition score :: "canonical_track \<Rightarrow> candidate \<Rightarrow> js_error + nat" where
  "score originalTrack track =
     (case track_name track of
        None \<Rightarrow> Inl TypeError
      | Some tn \<Rightarrow>
     (case track_artists track of
        [] \<Rightarrow> Inl TypeError
      | a # _ \<Rightarrow>
     (case artist_name a of
        None \<Rightarrow> Inl TypeError
      | Some an \<Rightarrow>
          (let nameScore = tier 10 5 (normalizeString tn) (normalizeString (name originalTrack));
               artistScore = tier 10 5 (normalizeString an) (normalizeString (artist originalTrack))
           in if album originalTrack \<noteq> [] then
                (case track_album track of
                   None \<Rightarrow> Inl TypeError
                 | Some al \<Rightarrow>
                (case album_name al of
                   None \<Rightarrow> Inl TypeError
                 | Some aln \<Rightarrow>
                     Inr (nameScore + artistScore
                          + tier 3 1 (normalizeString aln) (normalizeString (album originalTrack))
                          + duration_points (duration originalTrack) (duration_ms track))))
              else
                Inr (nameScore + artistScore
                     + duration_points (duration originalTrack) (duration_ms track))))))"

text \<open>The loop over the candidates, with \<open>bestMatch\<close> and \<open>bestScore\<close> as its state.\<close>

fun best_loop :: "canonical_track \<Rightarrow> candidate list \<Rightarrow> candidate \<Rightarrow> nat \<Rightarrow> js_error + candidate" where
  "best_loop originalTrack [] bestMatch bestScore = Inr bestMatch"
| "best_loop originalTrack (track # rest) bestMatch bestScore =
     (case score originalTrack track of
        Inl e \<Rightarrow> Inl e
      | Inr sc \<Rightarrow>
          if sc > bestScore then best_loop originalTrack rest track sc
          else best_loop originalTrack rest bestMatch bestScore)"

text \<open>\<open>findBestMatch\<close>: \<open>null\<close> is \<open>None\<close>.\<close>

definition findBestMatch :: "candidate list \<Rightarrow> canonical_track \<Rightarrow> js_error + candidate option" where
  "findBestMatch searchResults originalTrack =
     (case searchResults of
        [] \<Rightarrow> Inr None
      | [only] \<Rightarrow> Inr (Some only)
      | first # _ \<Rightarrow>
          (case best_loop originalTrack searchResults first 0 of
             Inl e \<Rightarrow> Inl e
           | Inr bestMatch \<Rightarrow> Inr (Some bestMatch)))"

section \<open>The search strategy: spotifyClient.js, searchTrack\<close>




section \<open>The reference normalisation of the specification\<close>

text \<open>
  The normalisation as the specification words it: lower case, delete every character
  that is neither alphanumeric nor white space, trim. Alphanumeric is read as the letters
  \<open>A\<close> to \<open>Z\<close>, \<open>a\<close> to \<open>z\<close> and the digits. The second definition keeps the underscore
  as well.
\<close>

definition is_alphanumeric :: "char \<Rightarrow> bool" where
  "is_alphanumeric c =
     (let n = (of_char c :: nat) in
        (48 \<le> n \<and> n \<le> 57) \<or> (65 \<le> n \<and> n \<le> 90) \<or> (97 \<le> n \<and> n \<le> 122))"

definition normalize_reference :: "string \<Rightarrow> string" where
  "normalize_reference s =
     trim (filter (\<lambda>c. is_alphanumeric c \<or> is_space_char c) (toLowerCase s))"

definition normalize_reference_underscore :: "string \<Rightarrow> string" where
  "normalize_reference_underscore s =
     trim (filter (\<lambda>c. is_alphanumeric c \<or> c = CHR ''_'' \<or> is_space_char c) (toLowerCase s))"

section \<open>Decimal texts\<close>



section \<open>Example data: the scenario of the scorer\<close>

text \<open>
  The scenario of the specification: the track \<open>Let It Be\<close> of 243 seconds and two
  candidates. \<open>example_third\<close> is the second candidate under another address, and
  \<open>example_no_artist\<close> is the second candidate with an empty list of artists.
\<close>

definition example_track :: canonical_track where
  "example_track =
     \<lparr> name = ''Let It Be'', artist = ''The Beatles'', album = [], year = [],
       duration = Num 243 \<rparr>"

definition example_first :: candidate where
  "example_first =
     \<lparr> track_name = Some ''let it be!'', track_artists = [Artist (Some ''Beatles, The'')],
       track_album = None, duration_ms = 245000, uri = ''spotify:track:1'' \<rparr>"

definition example_second :: candidate where
  "example_second =
     \<lparr> track_name = Some ''Let It Be (Remastered)'', track_artists = [Artist (Some ''The Beatles'')],
       track_album = None, duration_ms = 243000, uri = ''spotify:track:2'' \<rparr>"

definition example_third :: candidate where
  "example_third = example_second \<lparr> uri := ''spotify:track:3'' \<rparr>"


section \<open>Candidates that can be scored\<close>


section \<open>Property-list libraries: appleXmlParser.js\<close>

text \<open>
  What \<open>xml2js\<close> gives with \<open>explicitArray: false\<close>: an element without child elements
  is its text (\<open>''\<close> when empty); an element with child elements is an object with one
  property for each tag name among the children, whose value is the child itself when
  there is one child of that name and an array of the children when there are several.
  A property that the object lacks is \<open>Absent\<close>. The model keeps the eight properties the
  parser reads.
\<close>

datatype 'a xml_field = Absent | Single 'a | Many "'a list"

datatype node =
    Text string
  | Element (node_key: "string xml_field") (node_string: "string xml_field")
      (node_integer: "string xml_field") (node_date: "string xml_field")
      (node_true: "string xml_field") (node_false: "string xml_field")
      (node_array: "node xml_field") (node_dict: "node xml_field")

text \<open>Reading a property: a string has none of these properties.\<close>

fun prop_text :: "(node \<Rightarrow> string xml_field) \<Rightarrow> node \<Rightarrow> string xml_field" where
  "prop_text sel (Text s) = Absent"
| "prop_text sel n = sel n"

fun prop_node :: "(node \<Rightarrow> node xml_field) \<Rightarrow> node \<Rightarrow> node xml_field" where
  "prop_node sel (Text s) = Absent"
| "prop_node sel n = sel n"

text \<open>Truthiness: of a string, of a node, and of the value of a property.\<close>

definition str_truthy :: "string \<Rightarrow> bool" where
  "str_truthy s = (s \<noteq> [])"

fun node_truthy :: "node \<Rightarrow> bool" where
  "node_truthy (Text s) = str_truthy s"
| "node_truthy n = True"

fun field_truthy :: "('a \<Rightarrow> bool) \<Rightarrow> 'a xml_field \<Rightarrow> bool" where
  "field_truthy truthy Absent = False"
| "field_truthy truthy (Single x) = truthy x"
| "field_truthy truthy (Many xs) = True"

text \<open>\<open>Array.isArray(x) ? x : [x]\<close>; for a missing property the result is \<open>[undefined]\<close>.\<close>

fun as_array :: "'a xml_field \<Rightarrow> 'a option list" where
  "as_array Absent = [None]"
| "as_array (Single x) = [Some x]"
| "as_array (Many xs) = map Some xs"

text \<open>\<open>x ? (Array.isArray(x) ? x : [x]) : []\<close>\<close>

fun truthy_array :: "('a \<Rightarrow> bool) \<Rightarrow> 'a xml_field \<Rightarrow> 'a list" where
  "truthy_array truthy Absent = []"
| "truthy_array truthy (Single x) = (if truthy x then [x] else [])"
| "truthy_array truthy (Many xs) = xs"

text \<open>\<open>x !== undefined ? (Array.isArray(x) ? x.length : 1) : 0\<close>\<close>

fun marker_count :: "'a xml_field \<Rightarrow> nat" where
  "marker_count Absent = 0"
| "marker_count (Single x) = 1"
| "marker_count (Many xs) = length xs"

text \<open>
  The values of a decoded record. A date keeps the text it was built from; a \<open>VNode\<close> is
  the object of an element with children (a node that is a text is the string \<open>VStr\<close>);
  the value built by \<open>parsePlaylistItems\<close> is the list of the \<open>Track ID\<close> values of its
  items, each item being an object with that one property.
\<close>

datatype js_value =
    VStr string
  | VNum jsnum
  | VDate string
  | VBool bool
  | VNode node
  | VItems "js_value list"

fun truthy :: "js_value \<Rightarrow> bool" where
  "truthy (VStr s) = str_truthy s"
| "truthy (VNum n) = jsnum_truthy n"
| "truthy (VDate d) = True"
| "truthy (VBool b) = b"
| "truthy (VNode n) = True"
| "truthy (VItems xs) = True"

text \<open>A node as a value: a text node is a string, an element is an object.\<close>

fun node_value :: "node \<Rightarrow> js_value" where
  "node_value (Text s) = VStr s"
| "node_value n = VNode n"

text \<open>Truthiness of a property read from a record: \<open>undefined\<close> is falsy.\<close>

definition prop_truthy :: "js_value option \<Rightarrow> bool" where
  "prop_truthy v = (case v of None \<Rightarrow> False | Some x \<Rightarrow> truthy x)"

text \<open>\<open>cleanString\<close> returns anything that is not a string as it is.\<close>

fun cleanString_value :: "js_value \<Rightarrow> js_value" where
  "cleanString_value (VStr s) = VStr (cleanString s)"
| "cleanString_value v = v"

subsection \<open>parseDict and parsePlaylistItems\<close>

record buckets =
  strings :: "string list"
  integers :: "string list"
  dates :: "string list"
  trues :: nat
  falses :: nat
  arrays :: "node list"

record cursors =
  stringIndex :: nat
  integerIndex :: nat
  dateIndex :: nat
  trueCount :: nat
  falseCount :: nat
  arrayIndex :: nat

text \<open>
  The loop over the keys. \<open>arrayValue key arrayData\<close> is the value stored for a nested
  array; a key that finds every bucket used up leaves \<open>value\<close> at \<open>null\<close> and stores nothing.
\<close>

fun match_keys ::
  "(string \<Rightarrow> node \<Rightarrow> js_value) \<Rightarrow> buckets \<Rightarrow> string list \<Rightarrow> cursors \<Rightarrow>
   js_value js_object \<Rightarrow> js_value js_object" where
  "match_keys arrayValue b [] c result = result"
| "match_keys arrayValue b (key # rest) c result =
     (if stringIndex c < length (strings b) then
        match_keys arrayValue b rest (c\<lparr>stringIndex := stringIndex c + 1\<rparr>)
          (obj_set key (VStr (cleanString (strings b ! stringIndex c))) result)
      else if integerIndex c < length (integers b) then
        match_keys arrayValue b rest (c\<lparr>integerIndex := integerIndex c + 1\<rparr>)
          (obj_set key (VNum (parseInt (integers b ! integerIndex c))) result)
      else if dateIndex c < length (dates b) then
        match_keys arrayValue b rest (c\<lparr>dateIndex := dateIndex c + 1\<rparr>)
          (obj_set key (VDate (dates b ! dateIndex c)) result)
      else if trueCount c < trues b then
        match_keys arrayValue b rest (c\<lparr>trueCount := trueCount c + 1\<rparr>)
          (obj_set key (VBool True) result)
      else if falseCount c < falses b then
        match_keys arrayValue b rest (c\<lparr>falseCount := falseCount c + 1\<rparr>)
          (obj_set key (VBool False) result)
      else if arrayIndex c < length (arrays b) then
        match_keys arrayValue b rest (c\<lparr>arrayIndex := arrayIndex c + 1\<rparr>)
          (obj_set key (arrayValue key (arrays b ! arrayIndex c)) result)
      else match_keys arrayValue b rest c result)"

lemma match_keys_cong [fundef_cong]:
  assumes "b = b'" and "keys = keys'" and "c = c'" and "result = result'"
    and "\<And>key a. a \<in> set (arrays b') \<Longrightarrow> f key a = g key a"
  shows "match_keys f b keys c result = match_keys g b' keys' c' result'"
  unfolding assms(1-4) using assms(5)
proof (induction keys' arbitrary: c' result')
  case Nil
  then show ?case by simp
next
  case (Cons key rest)
  then show ?case by (simp add: nth_mem)
qed

definition start_cursors :: cursors where
  "start_cursors = \<lparr> stringIndex = 0, integerIndex = 0, dateIndex = 0,
                      trueCount = 0, falseCount = 0, arrayIndex = 0 \<rparr>"

text \<open>The six value arrays of a dict node, as \<open>parseDict\<close> builds them.\<close>

definition node_buckets :: "node \<Rightarrow> buckets" where
  "node_buckets dictData =
     \<lparr> strings = truthy_array str_truthy (prop_text node_string dictData),
       integers = truthy_array str_truthy (prop_text node_integer dictData),
       dates = truthy_array str_truthy (prop_text node_date dictData),
       trues = marker_count (prop_text node_true dictData),
       falses = marker_count (prop_text node_false dictData),
       arrays = truthy_array node_truthy (prop_node node_array dictData) \<rparr>"

text \<open>
  \<open>Array.isArray(dictData.key) ? dictData.key : [dictData.key]\<close>, which \<open>parseDict\<close> computes
  once it knows that the property is truthy.
\<close>

fun declared_keys :: "node \<Rightarrow> string list" where
  "declared_keys dictData =
     (case prop_text node_key dictData of
        Absent \<Rightarrow> []
      | Single k \<Rightarrow> [k]
      | Many ks \<Rightarrow> ks)"

lemma child_size_array:
  "a \<in> set (truthy_array node_truthy (prop_node node_array d)) \<Longrightarrow> size a < size d"
  by (cases d; cases "node_array d")
     (auto split: if_splits dest!: size_list_estimation' [where f = size and y = "size a"] simp: less_Suc_eq_le)

lemma child_size_dict:
  "Some x \<in> set (as_array (prop_node node_dict a)) \<Longrightarrow> size x < size a"
  by (cases a; cases "node_dict a")
     (auto dest!: size_list_estimation' [where f = size and y = "size x"] simp: less_Suc_eq_le)

function parseDict :: "node \<Rightarrow> js_value js_object"
  and parsePlaylistItems :: "node \<Rightarrow> js_value list" where
  "parseDict dictData =
     (if \<not> node_truthy dictData \<or> \<not> field_truthy str_truthy (prop_text node_key dictData) then []
      else match_keys
             (\<lambda>key arrayData.
                if key = ''Playlist Items'' \<and> field_truthy node_truthy (prop_node node_dict arrayData)
                then VItems (parsePlaylistItems arrayData)
                else node_value arrayData)
             (node_buckets dictData) (declared_keys dictData) start_cursors [])"
| "parsePlaylistItems arrayData =
     concat (map (\<lambda>itemDict.
                    (case itemDict of
                       None \<Rightarrow> []
                     | Some d \<Rightarrow>
                         (case obj_get (parseDict d) ''Track ID'' of
                            None \<Rightarrow> []
                          | Some v \<Rightarrow> if truthy v then [v] else [])))
                 (as_array (prop_node node_dict arrayData)))"
  by pat_completeness auto

termination
proof (relation "measure (\<lambda>x. case x of Inl d \<Rightarrow> 2 * size d + 1 | Inr a \<Rightarrow> 2 * size a)")
  show "wf (measure (\<lambda>x. case x of Inl d \<Rightarrow> 2 * size d + 1 | Inr a \<Rightarrow> 2 * size a))" by simp
next
  fix dictData :: node and key :: string and arrayData :: node
  assume "arrayData \<in> set (arrays (node_buckets dictData))"
  then have "size arrayData < size dictData"
    by (simp add: node_buckets_def child_size_array)
  then show "(Inr arrayData, Inl dictData)
      \<in> measure (\<lambda>x. case x of Inl d \<Rightarrow> 2 * size d + 1 | Inr a \<Rightarrow> 2 * size a)"
    by simp
next
  fix arrayData :: node and itemDict :: "node option" and d :: node
  assume "itemDict \<in> set (as_array (prop_node node_dict arrayData))" and "itemDict = Some d"
  then have "size d < size arrayData"
    by (simp add: child_size_dict)
  then show "(Inl d, Inr arrayData)
      \<in> measure (\<lambda>x. case x of Inl d \<Rightarrow> 2 * size d + 1 | Inr a \<Rightarrow> 2 * size a)"
    by simp
qed

declare parseDict.simps [simp del] parsePlaylistItems.simps [simp del]

subsection \<open>extractTracks, extractPlaylists and parseFile\<close>

record xml_parser =
  xml_tracks :: "js_value js_object list"
  xml_playlists :: "js_value js_object list"

definition new_parser :: xml_parser where
  "new_parser = \<lparr> xml_tracks = [], xml_playlists = [] \<rparr>"

text \<open>
  Reading a property of the value of a property. The value is a node or an array of
  nodes; an array has no property of these names.
\<close>

fun field_text :: "(node \<Rightarrow> string xml_field) \<Rightarrow> node xml_field \<Rightarrow> string xml_field" where
  "field_text sel (Single n) = prop_text sel n"
| "field_text sel f = Absent"

fun field_node :: "(node \<Rightarrow> node xml_field) \<Rightarrow> node xml_field \<Rightarrow> node xml_field" where
  "field_node sel (Single n) = prop_node sel n"
| "field_node sel f = Absent"

text \<open>\<open>parseDict\<close> and \<open>parseInt\<close> on an element of an array that may be \<open>undefined\<close>.\<close>

definition parseDict_opt :: "node option \<Rightarrow> js_value js_object" where
  "parseDict_opt n = (case n of None \<Rightarrow> [] | Some d \<Rightarrow> parseDict d)"

definition parseInt_opt :: "string option \<Rightarrow> jsnum" where
  "parseInt_opt s = (case s of None \<Rightarrow> NaN | Some t \<Rightarrow> parseInt t)"

definition extractTracks :: "node xml_field \<Rightarrow> xml_parser \<Rightarrow> xml_parser" where
  "extractTracks mainDict st =
     (let keys = as_array (field_text node_key mainDict) in
      if Some ''Tracks'' \<notin> set keys then st
      else
        (let tracksDict = field_node node_dict mainDict in
         if \<not> field_truthy node_truthy tracksDict
            \<or> \<not> field_truthy str_truthy (field_text node_key tracksDict)
            \<or> \<not> field_truthy node_truthy (field_node node_dict tracksDict)
         then st
         else
           (let trackIds = as_array (field_text node_key tracksDict);
                trackDicts = as_array (field_node node_dict tracksDict)
            in st \<lparr> xml_tracks := xml_tracks st @
                 concat (map (\<lambda>(trackId, trackData).
                                (let track = parseDict_opt trackData in
                                 if prop_truthy (obj_get track ''Name'')
                                    \<and> (prop_truthy (obj_get track ''Artist'')
                                         \<or> prop_truthy (obj_get track ''Album Artist''))
                                 then [obj_set ''Track ID'' (VNum (parseInt_opt trackId)) track]
                                 else []))
                             (zip trackIds trackDicts)) \<rparr>)))"

definition extractPlaylists :: "node xml_field \<Rightarrow> xml_parser \<Rightarrow> xml_parser" where
  "extractPlaylists mainDict st =
     (let keys = as_array (field_text node_key mainDict) in
      if Some ''Playlists'' \<notin> set keys then st
      else
        (let playlistsArray = field_node node_array mainDict in
         if \<not> field_truthy node_truthy playlistsArray
            \<or> \<not> field_truthy node_truthy (field_node node_dict playlistsArray)
         then st
         else
           (let playlistDicts = as_array (field_node node_dict playlistsArray)
            in st \<lparr> xml_playlists := xml_playlists st @
                 concat (map (\<lambda>playlistData.
                                (let playlist = parseDict_opt playlistData in
                                 if prop_truthy (obj_get playlist ''Name'') then [playlist] else []))
                             playlistDicts) \<rparr>)))"

text \<open>
  \<open>parseFile\<close>, from the \<open>plist\<close> property of the parsed document on (\<open>None\<close> when the
  document has no such root). The error is thrown inside the \<open>try\<close> block and thrown
  again with the prefix of the \<open>catch\<close> block.
\<close>

definition parseFile_xml :: "node option \<Rightarrow> xml_parser \<Rightarrow> js_error + xml_parser" where
  "parseFile_xml plist st =
     (case plist of
        None \<Rightarrow> Inl (Error (''Error parsing Apple Music XML: '' @ ''Invalid iTunes/Apple Music XML format''))
      | Some p \<Rightarrow>
          if \<not> node_truthy p \<or> \<not> field_truthy node_truthy (prop_node node_dict p)
          then Inl (Error (''Error parsing Apple Music XML: '' @ ''Invalid iTunes/Apple Music XML format''))
          else
            (let mainDict = prop_node node_dict p
             in Inr (extractPlaylists mainDict (extractTracks mainDict st))))"

subsection \<open>getTracksForSpotify and getPlaylistInfo\<close>

text \<open>
  The track handed to the search. \<open>xml_year\<close> and \<open>xml_duration\<close> keep the value that the
  source converts with the built-in \<open>toString()\<close> and \<open>Math.round(v / 1000)\<close>: \<open>Some v\<close>
  stands for the conversion of the truthy \<open>v\<close>, and \<open>None\<close> for the defaults \<open>''\<close> and \<open>0\<close>.
\<close>

record xml_canonical =
  xml_name :: js_value
  xml_artist :: js_value
  xml_album :: js_value
  xml_year :: "js_value option"
  xml_duration :: "js_value option"
  originalTrack :: "js_value js_object"

text \<open>\<open>a || b\<close> on properties that may be \<open>undefined\<close>, and \<open>a || ''\<close>.\<close>

definition or_prop :: "js_value option \<Rightarrow> js_value option \<Rightarrow> js_value option" where
  "or_prop a b = (if prop_truthy a then a else b)"

definition or_empty :: "js_value option \<Rightarrow> js_value" where
  "or_empty a = (case a of None \<Rightarrow> VStr [] | Some v \<Rightarrow> if truthy v then v else VStr [])"

definition truthy_only :: "js_value option \<Rightarrow> js_value option" where
  "truthy_only a = (if prop_truthy a then a else None)"

definition canonical :: "js_value js_object \<Rightarrow> xml_canonical" where
  "canonical track =
     \<lparr> xml_name = cleanString_value (or_empty (obj_get track ''Name'')),
       xml_artist = cleanString_value
                      (or_empty (or_prop (obj_get track ''Artist'') (obj_get track ''Album Artist''))),
       xml_album = cleanString_value (or_empty (obj_get track ''Album'')),
       xml_year = truthy_only (obj_get track ''Year''),
       xml_duration = truthy_only (obj_get track ''Total Time''),
       originalTrack = track \<rparr>"

text \<open>
  \<open>trackIds.includes(v)\<close> compares with SameValueZero: strings, numbers (NaN equals NaN)
  and booleans by value, objects by identity. The objects of a record are dates, element
  nodes and item lists, each built where it is stored, so that two of them found in
  different records are never the same object.
\<close>

fun same_value_zero :: "js_value \<Rightarrow> js_value \<Rightarrow> bool" where
  "same_value_zero (VStr a) (VStr b) = (a = b)"
| "same_value_zero (VNum a) (VNum b) = (a = b)"
| "same_value_zero (VBool a) (VBool b) = (a = b)"
| "same_value_zero _ _ = False"

definition includes_value :: "js_value list \<Rightarrow> js_value option \<Rightarrow> bool" where
  "includes_value trackIds v =
     (case v of None \<Rightarrow> False | Some x \<Rightarrow> (\<exists>tid \<in> set trackIds. same_value_zero tid x))"

definition not_found_or_empty :: "string \<Rightarrow> js_error" where
  "not_found_or_empty playlistName =
     Error (''Playlist '' @ [CHR 0x22] @ playlistName @ [CHR 0x22] @ '' not found or has no tracks'')"

definition not_found :: "string \<Rightarrow> js_error" where
  "not_found playlistName =
     Error (''Playlist '' @ [CHR 0x22] @ playlistName @ [CHR 0x22] @ '' not found'')"

text \<open>\<open>this.playlists.find(p => p.Name === playlistName)\<close>\<close>

definition find_playlist :: "xml_parser \<Rightarrow> string \<Rightarrow> js_value js_object option" where
  "find_playlist st playlistName =
     find (\<lambda>p. obj_get p ''Name'' = Some (VStr playlistName)) (xml_playlists st)"

text \<open>
  The branch of \<open>getTracksForSpotify\<close> for a playlist name. Calling \<open>map\<close> on a truthy value
  that is not an array is a \<open>TypeError\<close>.
\<close>

definition playlist_tracks :: "xml_parser \<Rightarrow> string \<Rightarrow> js_error + js_value js_object list" where
  "playlist_tracks st playlistName =
     (case find_playlist st playlistName of
        None \<Rightarrow> Inl (not_found_or_empty playlistName)
      | Some playlist \<Rightarrow>
          if \<not> prop_truthy (obj_get playlist ''Playlist Items'')
          then Inl (not_found_or_empty playlistName)
          else
            (case obj_get playlist ''Playlist Items'' of
               Some (VItems items) \<Rightarrow>
                 (let trackIds = filter truthy items
                  in Inr (filter (\<lambda>track. includes_value trackIds (obj_get track ''Track ID''))
                            (xml_tracks st)))
             | _ \<Rightarrow> Inl TypeError))"

text \<open>The argument is \<open>None\<close> for \<open>null\<close>; \<open>null\<close> and the empty string are falsy.\<close>

definition getTracksForSpotify :: "xml_parser \<Rightarrow> string option \<Rightarrow> js_error + xml_canonical list" where
  "getTracksForSpotify st playlistName =
     (case (case playlistName of
              None \<Rightarrow> Inr (xml_tracks st)
            | Some n \<Rightarrow> if str_truthy n then playlist_tracks st n else Inr (xml_tracks st)) of
        Inl e \<Rightarrow> Inl e
      | Inr tracksToConvert \<Rightarrow>
          Inr (filter (\<lambda>track. truthy (xml_name track) \<and> truthy (xml_artist track))
                 (map canonical tracksToConvert)))"

text \<open>\<open>v.length\<close>: strings and arrays have a length, the other values have none.\<close>

fun js_length :: "js_value \<Rightarrow> nat option" where
  "js_length (VStr s) = Some (length s)"
| "js_length (VItems xs) = Some (length xs)"
| "js_length v = None"

definition item_count :: "js_value js_object \<Rightarrow> nat option" where
  "item_count p =
     (if prop_truthy (obj_get p ''Playlist Items'')
      then (case obj_get p ''Playlist Items'' of None \<Rightarrow> None | Some v \<Rightarrow> js_length v)
      else Some 0)"

datatype playlist_summary =
  Summary (summary_name: "js_value option") (itemCount: "nat option") (master: bool) (folder: bool)

datatype playlist_info =
    PlaylistInfo (info_name: "js_value option") (info_totalTracks: "nat option")
      (info_validTracks: nat) (info_playlist: "js_value js_object")
  | LibraryInfo (library_totalTracks: nat) (library_validTracks: nat)
      (library_playlists: "playlist_summary list")

definition named_info :: "xml_parser \<Rightarrow> string \<Rightarrow> js_error + playlist_info" where
  "named_info st playlistName =
     (case find_playlist st playlistName of
        None \<Rightarrow> Inl (not_found playlistName)
      | Some playlist \<Rightarrow>
          (case getTracksForSpotify st (Some playlistName) of
             Inl e \<Rightarrow> Inl e
           | Inr playlistTracks \<Rightarrow>
               Inr (PlaylistInfo (obj_get playlist ''Name'') (item_count playlist)
                      (length playlistTracks) playlist)))"

definition library_info :: "xml_parser \<Rightarrow> js_error + playlist_info" where
  "library_info st =
     (case getTracksForSpotify st None of
        Inl e \<Rightarrow> Inl e
      | Inr validTracks \<Rightarrow>
          Inr (LibraryInfo (length (xml_tracks st)) (length validTracks)
                 (filter (\<lambda>p. prop_truthy (summary_name p))
                    (map (\<lambda>p. Summary (obj_get p ''Name'') (item_count p)
                                  (prop_truthy (obj_get p ''Master''))
                                  (prop_truthy (obj_get p ''Parent Persistent ID'')))
                         (xml_playlists st)))))"

definition getPlaylistInfo :: "xml_parser \<Rightarrow> string option \<Rightarrow> js_error + playlist_info" where
  "getPlaylistInfo st playlistName =
     (case playlistName of
        None \<Rightarrow> library_info st
      | Some n \<Rightarrow> if str_truthy n then named_info st n else library_info st)"

section \<open>The precedence order of the specification\<close>






section \<open>Example data: a tab-delimited file\<close>


section \<open>Example data: a library\<close>

text \<open>
  A library of three tracks and two playlists, as \<open>xml2js\<close> hands it over. The first
  playlist lists the second track, the first track and the second track again; the
  second playlist has a name and nothing else.
\<close>

definition example_item :: "string \<Rightarrow> node" where
  "example_item trackId =
     Element (Single ''Track ID'') Absent (Single trackId) Absent Absent Absent Absent Absent"

definition example_items :: node where
  "example_items =
     Element Absent Absent Absent Absent Absent Absent Absent
       (Many [example_item ''102'', example_item ''101'', example_item ''102''])"

definition example_playlist_dict :: node where
  "example_playlist_dict =
     Element (Many [''Name'', ''Playlist ID'', ''Visible'', ''Playlist Items''])
       (Single ''Road &#38;#38; Trip'') (Single ''42'') Absent (Single []) Absent
       (Single example_items) Absent"

definition example_empty_playlist_dict :: node where
  "example_empty_playlist_dict =
     Element (Single ''Name'') (Single ''Empty'') Absent Absent Absent Absent Absent Absent"

definition example_track_dict :: "string \<Rightarrow> string \<Rightarrow> node" where
  "example_track_dict title performer =
     Element (Many [''Name'', ''Artist'', ''Album'', ''Total Time''])
       (Many [title, performer, ''Help!'']) (Single ''243000'') Absent Absent Absent Absent Absent"

definition example_plist :: node where
  "example_plist =
     Element Absent Absent Absent Absent Absent Absent Absent
       (Single
         (Element (Many [''Tracks'', ''Playlists'']) Absent Absent Absent Absent Absent
            (Single (Element Absent Absent Absent Absent Absent Absent Absent
                       (Many [example_playlist_dict, example_empty_playlist_dict])))
            (Single (Element (Many [''101'', ''102'', ''103'']) Absent Absent Absent Absent Absent Absent
                       (Many [example_track_dict ''Help'' ''The Beatles'',
                              example_track_dict ''Rock &#38;#38; Roll'' ''Led Zeppelin'',
                              example_track_dict ''Yesterday'' ''The Beatles''])))))"

definition example_library :: xml_parser where
  "example_library =
     (case parseFile_xml (Some example_plist) new_parser of
        Inl e \<Rightarrow> new_parser
      | Inr st \<Rightarrow> st)"

section \<open>The key list and the stored values of parseDict\<close>




section \<open>Properties\<close>

subsection \<open>The normalisation of the scorer\<close>

lemma underscore_code: "((of_char c :: nat) = 95) = (c = CHR ''_'')"
proof -
  have "(of_char (CHR ''_'') :: nat) = 95" by simp
  then show ?thesis by (metis of_char_eq_iff)
qed

lemma is_word_char_iff: "is_word_char c = (is_alphanumeric c \<or> c = CHR ''_'')"
  unfolding is_word_char_def is_alphanumeric_def Let_def underscore_code [symmetric]
  by auto

lemma strip_non_word_space_filter:
  "strip_non_word_space s = filter (\<lambda>c. is_word_char c \<or> is_space_char c) s"
  by (induction s) simp_all

text \<open>
  Claim C5, as the specification states it: the normalisation of the scorer is the
  reference \<open>normalize_reference\<close> (lower case, delete what is neither alphanumeric nor
  white space, trim). It is not: the class \<open>\w\<close> of the source holds the underscore, so
  \<open>a_b\<close> keeps it where the reference deletes it.
\<close>

theorem normalizeString_counterexample:
  "normalizeString ''a_b'' \<noteq> normalize_reference ''a_b''"
  by code_simp

text \<open>
  Claim C5, amended: for every string, \<open>normalizeString\<close> is the reference with the
  underscore kept: lower case, delete every character that is neither alphanumeric, nor
  the underscore, nor white space, then trim.
\<close>

theorem normalizeString_keeps_underscore:
  "normalizeString s = normalize_reference_underscore s"
  by (simp add: normalizeString_def normalize_reference_underscore_def
        strip_non_word_space_filter is_word_char_iff disj_assoc)

text \<open>The amended claim C5 at \<open>Let It_Be! \<close>.\<close>

theorem normalizeString_keeps_underscore_witness:
  "normalizeString ''Let It_Be! '' = ''let it_be'' \<and> normalize_reference_underscore ''Let It_Be! '' = ''let it_be''"
proof -
  have "normalize_reference_underscore ''Let It_Be! '' = ''let it_be''" by code_simp
  with normalizeString_keeps_underscore [of "''Let It_Be! ''"] show ?thesis by simp
qed

subsection \<open>Durations of the tab-delimited format\<close>












subsection \<open>Best-match selection\<close>

lemma best_loop_first_maximum:
  "map (score t) cs = map Inr ss \<Longrightarrow>
     ((\<forall>s \<in> set ss. s \<le> bs) \<and> best_loop t cs bm bs = Inr bm)
     \<or> (\<exists>i < length cs. best_loop t cs bm bs = Inr (cs ! i) \<and> bs < ss ! i
            \<and> (\<forall>j < length cs. ss ! j \<le> ss ! i) \<and> (\<forall>j < i. ss ! j < ss ! i))"
proof (induction cs arbitrary: ss bm bs)
  case Nil
  then show ?case by simp
next
  case (Cons c cs)
  from Cons.prems obtain s ss' where ss: "ss = s # ss'" and sc: "score t c = Inr s"
    and rest: "map (score t) cs = map Inr ss'"
    by (cases ss) auto
  have len: "length ss' = length cs"
    using rest by (metis length_map)
  show ?case
  proof (cases "bs < s")
    case True
    then have step: "best_loop t (c # cs) bm bs = best_loop t cs c s"
      by (simp add: sc)
    from Cons.IH [OF rest, of s c]
    show ?thesis
    proof
      assume a: "(\<forall>x \<in> set ss'. x \<le> s) \<and> best_loop t cs c s = Inr c"
      have "\<forall>j < length (c # cs). ss ! j \<le> ss ! 0"
      proof (intro allI impI)
        fix j assume "j < length (c # cs)"
        then show "ss ! j \<le> ss ! 0"
          using a len by (cases j) (auto simp: ss)
      qed
      with a True step have "0 < length (c # cs) \<and> best_loop t (c # cs) bm bs = Inr ((c # cs) ! 0)
          \<and> bs < ss ! 0 \<and> (\<forall>j < length (c # cs). ss ! j \<le> ss ! 0) \<and> (\<forall>j < 0. ss ! j < ss ! 0)"
        by (simp add: ss)
      then show ?thesis by blast
    next
      assume "\<exists>i < length cs. best_loop t cs c s = Inr (cs ! i) \<and> s < ss' ! i
            \<and> (\<forall>j < length cs. ss' ! j \<le> ss' ! i) \<and> (\<forall>j < i. ss' ! j < ss' ! i)"
      then obtain i where i: "i < length cs" "best_loop t cs c s = Inr (cs ! i)" "s < ss' ! i"
        "\<forall>j < length cs. ss' ! j \<le> ss' ! i" "\<forall>j < i. ss' ! j < ss' ! i"
        by blast
      have le: "\<forall>j < length (c # cs). ss ! j \<le> ss ! Suc i"
      proof (intro allI impI)
        fix j assume "j < length (c # cs)"
        then show "ss ! j \<le> ss ! Suc i"
          using i by (cases j) (auto simp: ss)
      qed
      have lt: "\<forall>j < Suc i. ss ! j < ss ! Suc i"
      proof (intro allI impI)
        fix j assume "j < Suc i"
        then show "ss ! j < ss ! Suc i"
          using i by (cases j) (auto simp: ss)
      qed
      from i True step le lt
      have "Suc i < length (c # cs) \<and> best_loop t (c # cs) bm bs = Inr ((c # cs) ! Suc i)
          \<and> bs < ss ! Suc i \<and> (\<forall>j < length (c # cs). ss ! j \<le> ss ! Suc i)
          \<and> (\<forall>j < Suc i. ss ! j < ss ! Suc i)"
        by (simp add: ss)
      then show ?thesis by blast
    qed
  next
    case False
    then have step: "best_loop t (c # cs) bm bs = best_loop t cs bm bs"
      by (simp add: sc)
    from Cons.IH [OF rest, of bs bm]
    show ?thesis
    proof
      assume "(\<forall>x \<in> set ss'. x \<le> bs) \<and> best_loop t cs bm bs = Inr bm"
      with False step show ?thesis by (simp add: ss)
    next
      assume "\<exists>i < length cs. best_loop t cs bm bs = Inr (cs ! i) \<and> bs < ss' ! i
            \<and> (\<forall>j < length cs. ss' ! j \<le> ss' ! i) \<and> (\<forall>j < i. ss' ! j < ss' ! i)"
      then obtain i where i: "i < length cs" "best_loop t cs bm bs = Inr (cs ! i)" "bs < ss' ! i"
        "\<forall>j < length cs. ss' ! j \<le> ss' ! i" "\<forall>j < i. ss' ! j < ss' ! i"
        by blast
      have le: "\<forall>j < length (c # cs). ss ! j \<le> ss ! Suc i"
      proof (intro allI impI)
        fix j assume "j < length (c # cs)"
        then show "ss ! j \<le> ss ! Suc i"
          using i False by (cases j) (auto simp: ss)
      qed
      have lt: "\<forall>j < Suc i. ss ! j < ss ! Suc i"
      proof (intro allI impI)
        fix j assume "j < Suc i"
        then show "ss ! j < ss ! Suc i"
          using i False by (cases j) (auto simp: ss)
      qed
      from i step le lt
      have "Suc i < length (c # cs) \<and> best_loop t (c # cs) bm bs = Inr ((c # cs) ! Suc i)
          \<and> bs < ss ! Suc i \<and> (\<forall>j < length (c # cs). ss ! j \<le> ss ! Suc i)
          \<and> (\<forall>j < Suc i. ss ! j < ss ! Suc i)"
        by (simp add: ss)
      then show ?thesis by blast
    qed
  qed
qed

lemma findBestMatch_many:
  "2 \<le> length cs \<Longrightarrow>
   findBestMatch cs t =
     (case best_loop t cs (cs ! 0) 0 of Inl e \<Rightarrow> Inl e | Inr b \<Rightarrow> Inr (Some b))"
  by (cases cs; cases "tl cs") (auto simp: findBestMatch_def)

text \<open>
  Claim C1: for a list of two or more candidates that all have a score, \<open>findBestMatch\<close>
  returns the candidate at the first position that reaches the maximum of the scores:
  no candidate scores higher, and every earlier candidate scores strictly lower. So of
  two candidates with equal scores the later one is never returned.
\<close>

theorem findBestMatch_first_maximum:
  assumes "2 \<le> length cs" and "map (score t) cs = map Inr ss"
  shows "\<exists>i < length cs. findBestMatch cs t = Inr (Some (cs ! i))
           \<and> (\<forall>j < length cs. ss ! j \<le> ss ! i) \<and> (\<forall>j < i. ss ! j < ss ! i)"
proof -
  from best_loop_first_maximum [OF assms(2), of 0 "cs ! 0"]
  show ?thesis
  proof
    assume a: "(\<forall>s \<in> set ss. s \<le> 0) \<and> best_loop t cs (cs ! 0) 0 = Inr (cs ! 0)"
    have len: "length ss = length cs" using assms(2) by (metis length_map)
    have "ss ! j \<le> ss ! 0" if "j < length cs" for j
    proof -
      from that len have "ss ! j \<in> set ss" by simp
      with a have "ss ! j \<le> 0" by blast
      then show ?thesis by simp
    qed
    then have "\<forall>j < length cs. ss ! j \<le> ss ! 0" by blast
    with a assms(1) have "0 < length cs \<and> findBestMatch cs t = Inr (Some (cs ! 0))
        \<and> (\<forall>j < length cs. ss ! j \<le> ss ! 0) \<and> (\<forall>j < 0. ss ! j < ss ! 0)"
      by (auto simp: findBestMatch_many)
    then show ?thesis by blast
  next
    assume "\<exists>i < length cs. best_loop t cs (cs ! 0) 0 = Inr (cs ! i) \<and> 0 < ss ! i
        \<and> (\<forall>j < length cs. ss ! j \<le> ss ! i) \<and> (\<forall>j < i. ss ! j < ss ! i)"
    then obtain i where "i < length cs" "best_loop t cs (cs ! 0) 0 = Inr (cs ! i)"
        "\<forall>j < length cs. ss ! j \<le> ss ! i" "\<forall>j < i. ss ! j < ss ! i"
      by blast
    with assms(1) show ?thesis by (auto simp: findBestMatch_many)
  qed
qed

text \<open>
  Claim C1 at the scenario of the specification with a third candidate that ties with the
  second: the scores are 12, 17 and 17, and the second candidate is returned.
\<close>

theorem findBestMatch_first_maximum_witness:
  "map (score example_track) [example_first, example_second, example_third] = map Inr [12, 17, 17]
   \<and> findBestMatch [example_first, example_second, example_third] example_track
       = Inr (Some example_second)"
proof -
  let ?cs = "[example_first, example_second, example_third]"
  let ?ss = "[12, 17, 17 :: nat]"
  have sc: "map (score example_track) ?cs = map Inr ?ss" by code_simp
  have two: "2 \<le> length ?cs" by simp
  from findBestMatch_first_maximum [OF two sc]
  obtain i where i: "i < length ?cs"
      "findBestMatch ?cs example_track = Inr (Some (?cs ! i))"
      "\<forall>j < length ?cs. ?ss ! j \<le> ?ss ! i" "\<forall>j < i. ?ss ! j < ?ss ! i"
    by blast
  from i(1) have "i = 0 \<or> i = 1 \<or> i = 2" by auto
  moreover have "i \<noteq> 0"
  proof
    assume "i = 0"
    with i(3) [rule_format, of 1] show False by simp
  qed
  moreover have "i \<noteq> 2"
  proof
    assume "i = 2"
    with i(4) [rule_format, of 1] show False by simp
  qed
  ultimately have "i = 1" by blast
  with i(2) sc show ?thesis by simp
qed






subsection \<open>The cursor walk of parseDict\<close>





subsection \<open>The tab-delimited decoder\<close>
















subsection \<open>The search strategy\<close>




subsection \<open>The records of parseDict\<close>


















text \<open>
  The buckets are those of \<open>node_buckets\<close>: a type with one element only, which is empty,
  has a falsy property, and \<open>parseDict\<close> takes the node to have no value of that type.
\<close>

lemma parseDict_lone_empty_string:
  "parseDict (Element (Single ''Name'') (Single []) Absent Absent Absent Absent Absent Absent) = []"
  by code_simp


subsection \<open>Playlists of a library\<close>

lemma playlist_tracks_ok:
  "(playlist_tracks st n = Inr ts) =
     (\<exists>p items. find_playlist st n = Some p
        \<and> obj_get p ''Playlist Items'' = Some (VItems items)
        \<and> ts = filter (\<lambda>track. includes_value (filter truthy items) (obj_get track ''Track ID''))
                   (xml_tracks st))"
  by (auto simp: playlist_tracks_def prop_truthy_def Let_def
           split: option.splits js_value.splits)


lemma getTracksForSpotify_named:
  "n \<noteq> [] \<Longrightarrow>
   getTracksForSpotify st (Some n) =
     (case playlist_tracks st n of
        Inl e \<Rightarrow> Inl e
      | Inr ts \<Rightarrow> Inr (filter (\<lambda>track. truthy (xml_name track) \<and> truthy (xml_artist track))
                        (map canonical ts)))"
  by (simp add: getTracksForSpotify_def str_truthy_def)

lemma originalTrack_canonical: "originalTrack (canonical t) = t"
  by (simp add: canonical_def)

lemma originals_of_filtered:
  "map originalTrack (filter P (map canonical ts)) = filter (\<lambda>t. P (canonical t)) ts"
  by (induction ts) (simp_all add: originalTrack_canonical)

lemma canonical_of_originals:
  "map canonical (map originalTrack (filter P (map canonical ts))) = filter P (map canonical ts)"
  by (induction ts) (simp_all add: originalTrack_canonical)

lemma includes_value_set:
  "set xs = set ys \<Longrightarrow> includes_value xs v = includes_value ys v"
  by (cases v) (simp_all add: includes_value_def)

text \<open>
  Claim C9: when the lookup of a playlist succeeds, the library tracks behind the result
  are a subsequence of the library's track list, so they come in the order of the library
  and none of them more often than the library has it; each result is the canonical form
  of its library track; and the selection depends on the set of the playlist's items
  only, not on their order or on how often an identifier occurs among them.
\<close>

theorem getTracksForSpotify_library_order:
  assumes "getTracksForSpotify st (Some n) = Inr res" and "n \<noteq> []"
  shows "subseq (map originalTrack res) (xml_tracks st)
    \<and> res = map canonical (map originalTrack res)
    \<and> (distinct (xml_tracks st) \<longrightarrow> distinct (map originalTrack res))
    \<and> (\<exists>p items. find_playlist st n = Some p
          \<and> obj_get p ''Playlist Items'' = Some (VItems items)
          \<and> (\<forall>items'. set (filter truthy items') = set (filter truthy items) \<longrightarrow>
                map originalTrack res =
                  filter (\<lambda>track. includes_value (filter truthy items') (obj_get track ''Track ID'')
                                  \<and> truthy (xml_name (canonical track))
                                  \<and> truthy (xml_artist (canonical track)))
                    (xml_tracks st)))"
proof -
  from assms obtain ts where ts: "playlist_tracks st n = Inr ts"
    and res: "res = filter (\<lambda>track. truthy (xml_name track) \<and> truthy (xml_artist track))
                      (map canonical ts)"
    by (auto simp: getTracksForSpotify_named split: sum.splits)
  from ts obtain p items where p: "find_playlist st n = Some p"
    and items: "obj_get p ''Playlist Items'' = Some (VItems items)"
    and sel: "ts = filter (\<lambda>track. includes_value (filter truthy items) (obj_get track ''Track ID''))
                     (xml_tracks st)"
    by (auto simp: playlist_tracks_ok)
  have orig: "map originalTrack res =
      filter (\<lambda>track. includes_value (filter truthy items) (obj_get track ''Track ID'')
                      \<and> truthy (xml_name (canonical track))
                      \<and> truthy (xml_artist (canonical track)))
        (xml_tracks st)"
    by (simp add: res sel originals_of_filtered conj_commute conj_left_commute)
  have a: "subseq (map originalTrack res) (xml_tracks st)"
    by (simp add: orig)
  have "map canonical (map originalTrack res) = res"
    unfolding res by (rule canonical_of_originals)
  then have b: "res = map canonical (map originalTrack res)"
    by (rule sym)
  have c: "distinct (xml_tracks st) \<longrightarrow> distinct (map originalTrack res)"
    by (simp add: orig)
  have d: "\<forall>items'. set (filter truthy items') = set (filter truthy items) \<longrightarrow>
      map originalTrack res =
        filter (\<lambda>track. includes_value (filter truthy items') (obj_get track ''Track ID'')
                        \<and> truthy (xml_name (canonical track))
                        \<and> truthy (xml_artist (canonical track)))
          (xml_tracks st)"
  proof (intro allI impI)
    fix items' assume "set (filter truthy items') = set (filter truthy items)"
    then have "\<And>v. includes_value (filter truthy items') v = includes_value (filter truthy items) v"
      by (rule includes_value_set)
    then show "map originalTrack res =
        filter (\<lambda>track. includes_value (filter truthy items') (obj_get track ''Track ID'')
                        \<and> truthy (xml_name (canonical track))
                        \<and> truthy (xml_artist (canonical track)))
          (xml_tracks st)"
      by (simp add: orig)
  qed
  from a b c d p items show ?thesis by blast
qed

text \<open>
  Claim C9 at the example library: the playlist lists the tracks 102, 101, 102, and the
  result is the track 101 followed by the track 102.
\<close>

theorem getTracksForSpotify_library_order_witness:
  "(case getTracksForSpotify example_library (Some ''Road &#38; Trip'') of
      Inl e \<Rightarrow> False
    | Inr res \<Rightarrow>
        map xml_name res = [VStr ''Help'', VStr ''Rock & Roll'']
        \<and> subseq (map originalTrack res) (xml_tracks example_library)
        \<and> distinct (map originalTrack res))"
proof -
  have "(case getTracksForSpotify example_library (Some ''Road &#38; Trip'') of
      Inl e \<Rightarrow> False
    | Inr res \<Rightarrow> map xml_name res = [VStr ''Help'', VStr ''Rock & Roll''])"
    by code_simp
  then obtain res where res: "getTracksForSpotify example_library (Some ''Road &#38; Trip'') = Inr res"
    and names: "map xml_name res = [VStr ''Help'', VStr ''Rock & Roll'']"
    by (cases "getTracksForSpotify example_library (Some ''Road &#38; Trip'')") auto
  have d: "distinct (xml_tracks example_library)" by code_simp
  have n: "''Road &#38; Trip'' \<noteq> []" by simp
  from getTracksForSpotify_library_order [OF res n] d
  have "subseq (map originalTrack res) (xml_tracks example_library)
      \<and> distinct (map originalTrack res)"
    by blast
  with res names show ?thesis by simp
qed






text \<open>
  Two cases that the lookup by name leaves aside. The empty name is falsy and stands for
  no name at all. A \<open>Playlist Items\<close> value that is truthy and not a list (a key that
  drew a string, say) makes \<open>map\<close> fail.
\<close>

lemma empty_name_whole_library:
  "getTracksForSpotify st (Some []) = getTracksForSpotify st None
   \<and> getPlaylistInfo st (Some []) = getPlaylistInfo st None"
  by (simp add: getTracksForSpotify_def getPlaylistInfo_def str_truthy_def)

lemma playlist_items_not_a_list:
  assumes "n \<noteq> []" and "find_playlist st n = Some p"
    and "obj_get p ''Playlist Items'' = Some (VStr s)" and "s \<noteq> []"
  shows "getTracksForSpotify st (Some n) = Inl TypeError"
  using assms
  by (simp add: getTracksForSpotify_named playlist_tracks_def prop_truthy_def str_truthy_def)

subsection \<open>Unescaping, twice\<close>









end
